theory Spec2Isabelle
  imports Main "HOL-Library.Word"
begin

section \<open>JavaScript strings\<close>

text \<open>
  A JavaScript string is a sequence of UTF-16 code units; \<open>length\<close>, \<open>charCodeAt\<close>,
  \<open>slice\<close> and \<open>===\<close> all work on code units. \<open>js\<close> writes a literal whose
  characters are in the Latin-1 range.
\<close>

type_synonym code_unit = "16 word"
type_synonym jsstring = "code_unit list"

definition js :: "string \<Rightarrow> jsstring" where
  "js s = map of_char s"

text \<open>
  \<open>s.charCodeAt(i)\<close> is the code unit at index \<open>i\<close>, or NaN when \<open>i\<close> is out of range
  (\<open>None\<close> here). \<open>===\<close> on two such results is false as soon as one of them is NaN.
\<close>

definition charCodeAt :: "jsstring \<Rightarrow> nat \<Rightarrow> code_unit option" where
  "charCodeAt s i = (if i < length s then Some (s ! i) else None)"

fun strict_eq :: "code_unit option \<Rightarrow> code_unit option \<Rightarrow> bool" where
  "strict_eq (Some x) (Some y) = (x = y)"
| "strict_eq _ _ = False"

text \<open>
  \<open>s.slice(a, b)\<close> for indices that are not negative: both are clamped to the length,
  and the result is empty when the clamped end is not after the clamped start.
\<close>

definition slice :: "jsstring \<Rightarrow> nat \<Rightarrow> nat \<Rightarrow> jsstring" where
  "slice s a b =
     (let len = length s; lo = min a len; hi = min b len
      in take (hi - lo) (drop lo s))"

section \<open>computeChange\<close>

text \<open>The object \<open>{from, to, text}\<close> that \<open>computeChange\<close> returns.\<close>

record change =
  change_from :: nat
  change_to :: nat
  change_text :: jsstring

text \<open>
  First loop of \<open>computeChange\<close>:
  \<^verbatim>\<open>while (start < oldEnd && oldVal.charCodeAt(start) === newVal.charCodeAt(start)) ++start;\<close>
  The function returns the final \<open>start\<close>.
\<close>

function scan_start :: "jsstring \<Rightarrow> jsstring \<Rightarrow> nat \<Rightarrow> nat \<Rightarrow> nat" where
  "scan_start oldVal newVal oldEnd start =
     (if start < oldEnd \<and> strict_eq (charCodeAt oldVal start) (charCodeAt newVal start)
      then scan_start oldVal newVal oldEnd (Suc start)
      else start)"
  by pat_completeness auto
termination
  by (relation "measure (\<lambda>(oldVal, newVal, oldEnd, start). oldEnd - start)") auto

text \<open>
  Second loop:
  \<^verbatim>\<open>while (oldEnd > start && newEnd > start &&
         oldVal.charCodeAt(oldEnd - 1) === newVal.charCodeAt(newEnd - 1)) { oldEnd--; newEnd--; }\<close>
  The function returns the final \<open>(oldEnd, newEnd)\<close>.
\<close>

function scan_end :: "jsstring \<Rightarrow> jsstring \<Rightarrow> nat \<Rightarrow> nat \<Rightarrow> nat \<Rightarrow> nat \<times> nat" where
  "scan_end oldVal newVal start oldEnd newEnd =
     (if oldEnd > start \<and> newEnd > start
         \<and> strict_eq (charCodeAt oldVal (oldEnd - 1)) (charCodeAt newVal (newEnd - 1))
      then scan_end oldVal newVal start (oldEnd - 1) (newEnd - 1)
      else (oldEnd, newEnd))"
  by pat_completeness auto
termination
  by (relation "measure (\<lambda>(oldVal, newVal, start, oldEnd, newEnd). oldEnd)") auto

text \<open>\<open>computeChange(oldVal, newVal)\<close>; \<open>None\<close> is the \<open>null\<close> result.\<close>

definition computeChange :: "jsstring \<Rightarrow> jsstring \<Rightarrow> change option" where
  "computeChange oldVal newVal =
     (if oldVal = newVal then None
      else
        let start = scan_start oldVal newVal (length oldVal) 0;
            (oldEnd, newEnd) = scan_end oldVal newVal start (length oldVal) (length newVal)
        in Some \<lparr>change_from = start, change_to = oldEnd,
                 change_text = slice newVal start newEnd\<rparr>)"

text \<open>
  Applying a change, in the words of the specification: replace the half-open range
  \<open>[from, to)\<close> of the string with \<open>text\<close>.
\<close>

definition applyChange :: "jsstring \<Rightarrow> change \<Rightarrow> jsstring" where
  "applyChange s c = take (change_from c) s @ change_text c @ drop (change_to c) s"

section \<open>The host document and the inner editor\<close>

text \<open>
  The host document (ProseMirror) and the inner editor (Ace) are collaborators of
  \<open>CodeBlockNodeView\<close>. The model keeps what the class reads from them as fields of the
  state, and records every call the class makes on them in a trace, in call order.
\<close>

text \<open>
  A ProseMirror node, as far as the class looks at it. \<open>node.type\<close> is compared by
  identity; a node type is identified here by its name. \<open>node.type.spec.selectable\<close> may
  be undefined (\<open>None\<close>), which is falsy.
\<close>

record pm_node =
  node_type :: string
  spec_selectable :: "bool option"
  textContent :: jsstring
  nodeSize :: int
  childCount :: nat

fun truthy :: "bool option \<Rightarrow> bool" where
  "truthy (Some True) = True"
| "truthy _ = False"

text \<open>
  Selections of the host, named after the calls that build them:
  \<open>TextSelection.create(doc, anchor, head)\<close>, \<open>NodeSelection.create(doc, pos)\<close>,
  \<open>Selection.near(doc.resolve(pos), dir)\<close> and \<open>TextSelection.near(doc.resolve(pos), bias)\<close>.
\<close>

datatype selection =
    TextSelection int int
  | NodeSelection int
  | Selection_near int int
  | TextSelection_near int int

text \<open>
  A transaction is the list of steps put on it: \<open>tr.replaceWith(from, to, node)\<close> with a
  text node or \<open>null\<close>, \<open>tr.delete(from, to)\<close>, \<open>tr.setSelection(sel)\<close>,
  \<open>tr.scrollIntoView()\<close>.
\<close>

datatype step =
    ReplaceWith int int "jsstring option"
  | Delete int int
  | SetSelection selection
  | ScrollIntoView

type_synonym transaction = "step list"

text \<open>Which element holds the input focus (\<open>document.activeElement\<close>).\<close>

datatype focus = InnerEditor | HostView | Elsewhere

text \<open>
  Calls on the collaborators:
  \<^item> \<open>Editor_focus\<close>: \<open>chunk.editor.focus()\<close>;
  \<^item> \<open>Editor_execCommand c\<close>: \<open>chunk.editor.execCommand(c)\<close>;
  \<^item> \<open>Session_replace from to text\<close>: \<open>editSession.replace(range, text)\<close> with the range
    from \<open>doc.indexToPosition(from, 0)\<close> to \<open>doc.indexToPosition(to, 0)\<close>;
  \<^item> \<open>Selection_setSelectionRange anchor head\<close>: \<open>setSelectionRange(range)\<close> with the range
    from \<open>doc.indexToPosition(anchor, 0)\<close> to \<open>doc.indexToPosition(head, 0)\<close>;
  \<^item> \<open>Chunk_setMode lang\<close>: \<open>chunk.setMode(lang)\<close>;
  \<^item> \<open>View_focus\<close>: \<open>view.focus()\<close>;
  \<^item> \<open>View_dispatch tr\<close>: \<open>view.dispatch(tr)\<close>;
  \<^item> \<open>UndoInputRule_dispatch\<close>: \<open>undoInputRule(view.state, view.dispatch)\<close>.
\<close>

datatype call =
    Editor_focus
  | Editor_execCommand string
  | Session_replace nat nat jsstring
  | Selection_setSelectionRange int int
  | Chunk_setMode jsstring
  | View_focus
  | View_dispatch transaction
  | UndoInputRule_dispatch

text \<open>
  \<open>CodeViewOptions\<close>: the language classifier \<open>lang(node, content)\<close>, which returns a
  string or \<open>null\<close>, and whether \<open>executeRmdChunkFn\<close> is configured.
  \<open>EditorOptions\<close>: the optional list \<open>rmdChunkExecution\<close>.
\<close>

record code_view_options =
  lang :: "pm_node \<Rightarrow> jsstring \<Rightarrow> jsstring option"
  executeRmdChunkFn :: bool

record editor_options =
  rmdChunkExecution :: "jsstring list option"

text \<open>
  The state of one \<open>CodeBlockNodeView\<close>.
  \<^item> Fields of the class: \<open>node\<close>, \<open>updating\<close>, \<open>escaping\<close>, \<open>mode\<close>, \<open>options\<close>,
    \<open>editorOptions\<close>, and the \<open>style.display\<close> of \<open>runChunkToolbar\<close>.
  \<^item> What the inner editor answers: \<open>editSession.getValue()\<close>,
    \<open>editor.getSelection().isEmpty()\<close>, \<open>editor.getCursorPosition()\<close> as
    \<open>(row, column)\<close>, \<open>editSession.getLength()\<close>, the length of \<open>getDocument().getLine(row)\<close>, and
    \<open>positionToIndex\<close> of the start and of the end of \<open>getSelection().getRange()\<close>.
  \<^item> What the host answers: \<open>getPos()\<close>, \<open>view.state.selection\<close>,
    \<open>doc.resolve(pos).nodeBefore\<close>, \<open>doc.nodeAt(pos)\<close>, and whether
    \<open>undoInputRule(view.state)\<close> is true.
  \<^item> Of the platform: where the focus is, and whether
    \<open>a.localeCompare(b, undefined, {sensitivity: 'accent'}) === 0\<close>.
  \<^item> \<open>trace\<close>: the calls made on the collaborators so far, each with the value of
    \<open>updating\<close> at the moment of the call.
  The inner buffer is kept as the flat string \<open>getValue()\<close> returns, addressed by the offsets
  the class hands to \<open>indexToPosition\<close>. What the host does with a dispatched transaction, and
  which events a call raises, is not part of the class: the listeners are entry points of
  their own.
\<close>

record node_view =
  node :: pm_node
  updating :: bool
  escaping :: bool
  mode :: jsstring
  options :: code_view_options
  editorOptions :: editor_options
  runChunkToolbar_display :: string
  editor_value :: jsstring
  selection_isEmpty :: bool
  cursorPosition :: "int \<times> int"
  session_length :: int
  line_length :: "int \<Rightarrow> int"
  range_start_index :: nat
  range_end_index :: nat
  getPos :: int
  state_selection :: selection
  doc_nodeBefore :: "int \<Rightarrow> pm_node option"
  doc_nodeAt :: "int \<Rightarrow> pm_node option"
  undoInputRule_possible :: bool
  focus :: focus
  localeCompare_accent_is_0 :: "jsstring \<Rightarrow> jsstring \<Rightarrow> bool"
  trace :: "(bool \<times> call) list"

definition perform :: "call \<Rightarrow> node_view \<Rightarrow> node_view" where
  "perform c s = s\<lparr>trace := trace s @ [(updating s, c)]\<rparr>"

definition editor_focus :: "node_view \<Rightarrow> node_view" where
  "editor_focus s = perform Editor_focus (s\<lparr>focus := InnerEditor\<rparr>)"

definition view_focus :: "node_view \<Rightarrow> node_view" where
  "view_focus s = perform View_focus (s\<lparr>focus := HostView\<rparr>)"

definition session_replace :: "nat \<Rightarrow> nat \<Rightarrow> jsstring \<Rightarrow> node_view \<Rightarrow> node_view" where
  "session_replace from_index to_index text s =
     perform (Session_replace from_index to_index text)
       (s\<lparr>editor_value :=
            take from_index (editor_value s) @ text @ drop to_index (editor_value s)\<rparr>)"

text \<open>The transactions dispatched to the host so far, oldest first.\<close>

fun dispatched_of :: "(bool \<times> call) list \<Rightarrow> transaction list" where
  "dispatched_of [] = []"
| "dispatched_of ((u, View_dispatch tr) # cs) = tr # dispatched_of cs"
| "dispatched_of (_ # cs) = dispatched_of cs"

text \<open>The modes handed to \<open>chunk.setMode\<close> so far, oldest first.\<close>

fun modes_set_of :: "(bool \<times> call) list \<Rightarrow> jsstring list" where
  "modes_set_of [] = []"
| "modes_set_of ((u, Chunk_setMode m) # cs) = m # modes_set_of cs"
| "modes_set_of (_ # cs) = modes_set_of cs"

section \<open>CodeBlockNodeView\<close>

definition getContents :: "node_view \<Rightarrow> jsstring" where
  "getContents s = editor_value s"

definition canExecuteChunks :: "node_view \<Rightarrow> bool" where
  "canExecuteChunks s \<longleftrightarrow>
     rmdChunkExecution (editorOptions s) \<noteq> None \<and> executeRmdChunkFn (options s)"

definition enableChunkExecution :: "bool \<Rightarrow> node_view \<Rightarrow> node_view" where
  "enableChunkExecution enable s =
     s\<lparr>runChunkToolbar_display := (if enable then ''initial'' else ''none'')\<rparr>"

definition isChunkExecutionEnabled :: "node_view \<Rightarrow> bool" where
  "isChunkExecutionEnabled s \<longleftrightarrow> runChunkToolbar_display s \<noteq> ''none''"

text \<open>
  \<open>updateMode\<close>. The first test is \<open>lang !== null && this.mode !== lang\<close>. The second is
  \<open>lang && this.canExecuteChunks()\<close>, where an empty string is falsy, and then
  \<open>!!rmdChunkExecution.find(...)\<close>, where \<open>find\<close> returns the first matching entry and
  \<open>!!\<close> of an empty string is false.
\<close>

definition updateMode :: "node_view \<Rightarrow> node_view" where
  "updateMode s =
     (let lang_opt = lang (options s) (node s) (getContents s);
          s1 = (case lang_opt of
                  None \<Rightarrow> s
                | Some l \<Rightarrow> if mode s \<noteq> l then (perform (Chunk_setMode l) s)\<lparr>mode := l\<rparr> else s)
      in case lang_opt of
           None \<Rightarrow> enableChunkExecution False s1
         | Some l \<Rightarrow>
             if l \<noteq> [] \<and> canExecuteChunks s1
             then
               (case rmdChunkExecution (editorOptions s1) of
                  None \<Rightarrow> enableChunkExecution False s1
                | Some langs \<Rightarrow>
                    let enabled =
                          (case find (\<lambda>rmdChunkLang. localeCompare_accent_is_0 s1 l rmdChunkLang) langs of
                             None \<Rightarrow> False
                           | Some found \<Rightarrow> found \<noteq> [])
                    in enableChunkExecution enabled s1)
             else enableChunkExecution False s1)"

text \<open>\<open>update(node, _decos)\<close>: the returned boolean and the state afterwards.\<close>

definition update :: "pm_node \<Rightarrow> node_view \<Rightarrow> bool \<times> node_view" where
  "update new_node s =
     (if node_type new_node \<noteq> node_type (node s) then (False, s)
      else
        let s1 = s\<lparr>node := new_node\<rparr>;
            s2 = updateMode s1;
            change = computeChange (editor_value s2) (textContent new_node);
            s3 = (case change of
                    None \<Rightarrow> s2
                  | Some c \<Rightarrow>
                      let s4 = s2\<lparr>updating := True\<rparr>;
                          s5 = session_replace (change_from c) (change_to c) (change_text c) s4
                      in s5\<lparr>updating := False\<rparr>)
        in (True, s3))"

text \<open>\<open>setSelection(anchor, head)\<close>.\<close>

definition setSelection :: "int \<Rightarrow> int \<Rightarrow> node_view \<Rightarrow> node_view" where
  "setSelection anchor head s =
     (let s1 = (if \<not> escaping s then editor_focus s else s);
          s2 = s1\<lparr>updating := True\<rparr>;
          s3 = perform (Selection_setSelectionRange anchor head) s2
      in s3\<lparr>updating := False\<rparr>)"

text \<open>\<open>asProseMirrorSelection(doc)\<close>.\<close>

definition asProseMirrorSelection :: "node_view \<Rightarrow> selection" where
  "asProseMirrorSelection s =
     (let offset = getPos s + 1;
          anchor = int (range_start_index s) + offset;
          head = int (range_end_index s) + offset
      in TextSelection anchor head)"

text \<open>
  \<open>forwardSelection\<close>: nothing unless the focus is inside the inner editor's element;
  then the selection is dispatched when it is not \<open>eq\<close> to the host's.
\<close>

definition forwardSelection :: "node_view \<Rightarrow> node_view" where
  "forwardSelection s =
     (if focus s \<noteq> InnerEditor then s
      else
        let selection = asProseMirrorSelection s
        in if selection \<noteq> state_selection s
           then perform (View_dispatch [SetSelection selection]) s
           else s)"

text \<open>
  \<open>valueChanged\<close>. \<open>change.text ? schema.text(change.text) : null\<close> is \<open>null\<close> for the empty
  string.
\<close>

definition valueChanged :: "node_view \<Rightarrow> node_view" where
  "valueChanged s =
     (let change = computeChange (textContent (node s)) (getContents s);
          s1 = (case change of
                  None \<Rightarrow> s
                | Some c \<Rightarrow>
                    let start = getPos s + 1;
                        tr = [ReplaceWith (start + int (change_from c)) (start + int (change_to c))
                                (if change_text c \<noteq> [] then Some (change_text c) else None)]
                    in perform (View_dispatch tr) s)
      in updateMode s1)"

text \<open>The listeners the constructor registers for \<open>changeCursor\<close> and \<open>change\<close>.\<close>

definition on_changeCursor :: "node_view \<Rightarrow> node_view" where
  "on_changeCursor s = (if \<not> updating s then forwardSelection s else s)"

definition on_change :: "node_view \<Rightarrow> node_view" where
  "on_change s = (if \<not> updating s then forwardSelection (valueChanged s) else s)"

text \<open>\<open>backspaceMaybeDeleteNode\<close>.\<close>

definition backspaceMaybeDeleteNode :: "node_view \<Rightarrow> node_view" where
  "backspaceMaybeDeleteNode s =
     (if childCount (node s) = 0
      then
        if undoInputRule_possible s
        then view_focus (perform UndoInputRule_dispatch s)
        else
          let tr = [Delete (getPos s) (getPos s + nodeSize (node s)),
                    SetSelection (TextSelection_near (getPos s) (- 1))]
          in view_focus (perform (View_dispatch tr) s)
      else perform (Editor_execCommand ''backspace'') s)"

text \<open>
  \<open>arrowMaybeEscape(unit, dir, command)\<close>. \<open>stays_inside\<close> is the condition of its first
  \<open>if\<close>; \<open>escape_selection\<close> is the value of the variable \<open>selection\<close> before
  \<open>if (selection)\<close>, with \<open>None\<close> for \<open>undefined\<close>.
\<close>

definition stays_inside :: "string \<Rightarrow> int \<Rightarrow> node_view \<Rightarrow> bool" where
  "stays_inside unit dir s \<longleftrightarrow>
     (let pos = cursorPosition s;
          lastrow = session_length s - 1
      in \<not> selection_isEmpty s
         \<or> fst pos \<noteq> (if dir < 0 then 0 else lastrow)
         \<or> (unit = ''char'' \<and> snd pos \<noteq> (if dir < 0 then 0 else line_length s (fst pos))))"

definition prevNodeSelectable :: "node_view \<Rightarrow> bool" where
  "prevNodeSelectable s =
     (case doc_nodeBefore s (getPos s) of
        None \<Rightarrow> False
      | Some nodeBefore \<Rightarrow> truthy (spec_selectable nodeBefore))"

definition nextNodeSelectable :: "node_view \<Rightarrow> bool" where
  "nextNodeSelectable s =
     (case doc_nodeAt s (getPos s + nodeSize (node s)) of
        None \<Rightarrow> False
      | Some nextNode \<Rightarrow> truthy (spec_selectable nextNode))"

definition escape_selection :: "int \<Rightarrow> node_view \<Rightarrow> selection option" where
  "escape_selection dir s =
     (if dir < 0 \<and> prevNodeSelectable s
      then
        (case doc_nodeBefore s (getPos s) of
           None \<Rightarrow> None
         | Some nodeBefore \<Rightarrow> Some (NodeSelection (getPos s - nodeSize nodeBefore)))
      else if dir \<ge> 0 \<and> nextNodeSelectable s
      then Some (NodeSelection (getPos s + nodeSize (node s)))
      else
        let targetPos = getPos s + (if dir < 0 then 0 else nodeSize (node s))
        in case doc_nodeAt s targetPos of
             None \<Rightarrow> None
           | Some targetNode \<Rightarrow> Some (Selection_near targetPos dir))"

definition arrowMaybeEscape :: "string \<Rightarrow> int \<Rightarrow> string \<Rightarrow> node_view \<Rightarrow> node_view" where
  "arrowMaybeEscape unit dir command s =
     (if stays_inside unit dir s
      then perform (Editor_execCommand command) s
      else
        let s1 = s\<lparr>escaping := True\<rparr>;
            s2 = view_focus s1;
            s3 = (case escape_selection dir s2 of
                    None \<Rightarrow> s2
                  | Some selection \<Rightarrow>
                      perform (View_dispatch [SetSelection selection, ScrollIntoView]) s2);
            s4 = view_focus s3
        in s4\<lparr>escaping := False\<rparr>)"

section \<open>Reading the trace\<close>

text \<open>
  The value of \<open>updating\<close> at each cross-sync apply in a trace (a patch of the inner buffer
  or a selection set on the inner editor), oldest first.
\<close>

fun apply_guards_of :: "(bool \<times> call) list \<Rightarrow> bool list" where
  "apply_guards_of [] = []"
| "apply_guards_of ((u, Session_replace f t x) # cs) = u # apply_guards_of cs"
| "apply_guards_of ((u, Selection_setSelectionRange a h) # cs) = u # apply_guards_of cs"
| "apply_guards_of (_ # cs) = apply_guards_of cs"

section \<open>Example states\<close>

text \<open>
  A collator for the example states. With \<open>sensitivity: 'accent'\<close> the platform's
  \<open>localeCompare\<close> reports two strings equal when they differ in letter case only, and
  unequal when they differ in a base letter or in an accent. On the strings used below
  (ASCII letters, and one accented letter against its base letter) that is: equal after
  folding \<open>A\<close> to \<open>Z\<close> to lower case.
\<close>

definition fold_ascii_case :: "code_unit \<Rightarrow> code_unit" where
  "fold_ascii_case c = (if 0x41 \<le> c \<and> c \<le> 0x5A then c + 0x20 else c)"

definition accent_collator :: "jsstring \<Rightarrow> jsstring \<Rightarrow> bool" where
  "accent_collator a b \<longleftrightarrow> map fold_ascii_case a = map fold_ascii_case b"

text \<open>A code block with the given text, a paragraph, and a node whose type is selectable.\<close>

definition code_block :: "jsstring \<Rightarrow> pm_node" where
  "code_block content =
     \<lparr>node_type = ''code_block'', spec_selectable = None, textContent = content,
      nodeSize = int (length content) + 2,
      childCount = (if content = [] then 0 else 1)\<rparr>"

definition paragraph_node :: "jsstring \<Rightarrow> pm_node" where
  "paragraph_node content =
     \<lparr>node_type = ''paragraph'', spec_selectable = None, textContent = content,
      nodeSize = int (length content) + 2,
      childCount = (if content = [] then 0 else 1)\<rparr>"


text \<open>
  A view on a code block that is the only node of the document: the buffer equals the
  node's text, which is one line; the cursor is at the start; the inner editor has the
  focus; no language is detected and execution is not configured.
\<close>

definition idle_view :: "jsstring \<Rightarrow> node_view" where
  "idle_view content =
     \<lparr>node = code_block content, updating = False, escaping = False, mode = [],
      options = \<lparr>lang = (\<lambda>n c. None), executeRmdChunkFn = False\<rparr>,
      editorOptions = \<lparr>rmdChunkExecution = None\<rparr>,
      runChunkToolbar_display = ''none'',
      editor_value = content, selection_isEmpty = True, cursorPosition = (0, 0),
      session_length = 1, line_length = (\<lambda>row. if row = 0 then int (length content) else 0),
      range_start_index = 0, range_end_index = 0,
      getPos = 0, state_selection = TextSelection 1 1,
      doc_nodeBefore = (\<lambda>p. None),
      doc_nodeAt = (\<lambda>p. if p = 0 then Some (code_block content) else None),
      undoInputRule_possible = False, focus = InnerEditor,
      localeCompare_accent_is_0 = accent_collator,
      trace = []\<rparr>"

text \<open>
  A view with an execution callback, a list of executable languages, a stored mode and a
  classifier that detects the given language.
\<close>

definition executable_view :: "jsstring \<Rightarrow> jsstring \<Rightarrow> jsstring list \<Rightarrow> node_view" where
  "executable_view current_mode detected langs =
     (idle_view [])
       \<lparr>mode := current_mode,
        options := \<lparr>lang = (\<lambda>n c. Some detected), executeRmdChunkFn = True\<rparr>,
        editorOptions := \<lparr>rmdChunkExecution = Some langs\<rparr>\<rparr>"

text \<open>
  A view whose classifier reads the language from the node: the node's text up to the
  first space. The stored mode is the language of the bound node; an execution callback
  and a list of executable languages are configured.
\<close>

definition first_word :: "jsstring \<Rightarrow> jsstring" where
  "first_word content = takeWhile (\<lambda>c. c \<noteq> 0x20) content"

definition classified_view :: "jsstring \<Rightarrow> jsstring list \<Rightarrow> node_view" where
  "classified_view content langs =
     (idle_view content)
       \<lparr>mode := first_word content,
        options := \<lparr>lang = (\<lambda>n c. Some (first_word (textContent n))), executeRmdChunkFn = True\<rparr>,
        editorOptions := \<lparr>rmdChunkExecution = Some langs\<rparr>\<rparr>"


section \<open>The execution affordance as the specification words it\<close>

text \<open>
  The specification's reading of the match between the detected language and a list
  entry: equal when case and accents are ignored. \<open>base_letter\<close> lower-cases a Latin-1
  letter and drops its accent.
\<close>

definition base_letter :: "code_unit \<Rightarrow> code_unit" where
  "base_letter c =
     (let d = (if (0x41 \<le> c \<and> c \<le> 0x5A) \<or> (0xC0 \<le> c \<and> c \<le> 0xDE \<and> c \<noteq> 0xD7)
               then c + 0x20 else c)
      in if 0xE0 \<le> d \<and> d \<le> 0xE5 then 0x61
         else if d = 0xE7 then 0x63
         else if 0xE8 \<le> d \<and> d \<le> 0xEB then 0x65
         else if 0xEC \<le> d \<and> d \<le> 0xEF then 0x69
         else if d = 0xF1 then 0x6E
         else if (0xF2 \<le> d \<and> d \<le> 0xF6) \<or> d = 0xF8 then 0x6F
         else if 0xF9 \<le> d \<and> d \<le> 0xFC then 0x75
         else if d = 0xFD \<or> d = 0xFF then 0x79
         else d)"

definition spec_lang_matches :: "jsstring \<Rightarrow> jsstring \<Rightarrow> bool" where
  "spec_lang_matches a b \<longleftrightarrow> map base_letter a = map base_letter b"

text \<open>
  The affordance as the specification states it: an execution callback is configured and
  the detected language matches some entry of the configured list.
\<close>

definition spec_execution_shown :: "node_view \<Rightarrow> bool" where
  "spec_execution_shown s \<longleftrightarrow>
     executeRmdChunkFn (options s)
     \<and> (case lang (options s) (node s) (getContents s) of
          None \<Rightarrow> False
        | Some l \<Rightarrow>
            list_ex (spec_lang_matches l)
              (case rmdChunkExecution (editorOptions s) of None \<Rightarrow> [] | Some langs \<Rightarrow> langs))"

section \<open>Properties of computeChange\<close>

declare scan_start.simps [simp del] scan_end.simps [simp del]

lemma strict_eq_charCodeAt:
  "strict_eq (charCodeAt s i) (charCodeAt t j) \<longleftrightarrow> i < length s \<and> j < length t \<and> s ! i = t ! j"
  by (simp add: charCodeAt_def)

lemma scan_start_inv:
  assumes "start \<le> oldEnd" "oldEnd \<le> length oldVal" "start \<le> length newVal"
    and "take start oldVal = take start newVal"
  shows "start \<le> scan_start oldVal newVal oldEnd start
       \<and> scan_start oldVal newVal oldEnd start \<le> oldEnd
       \<and> scan_start oldVal newVal oldEnd start \<le> length newVal
       \<and> take (scan_start oldVal newVal oldEnd start) oldVal
           = take (scan_start oldVal newVal oldEnd start) newVal"
  using assms
proof (induction oldVal newVal oldEnd start rule: scan_start.induct)
  case (1 oldVal newVal oldEnd start)
  show ?case
  proof (cases "start < oldEnd \<and> strict_eq (charCodeAt oldVal start) (charCodeAt newVal start)")
    case True
    then have lt: "start < length oldVal" "start < length newVal"
      and eq: "oldVal ! start = newVal ! start"
      by (simp_all add: strict_eq_charCodeAt)
    have tk: "take (Suc start) oldVal = take (Suc start) newVal"
      using lt eq "1.prems"(4) by (simp add: take_Suc_conv_app_nth)
    have step: "scan_start oldVal newVal oldEnd start = scan_start oldVal newVal oldEnd (Suc start)"
      using True by (simp add: scan_start.simps[of oldVal newVal oldEnd start])
    have "Suc start \<le> oldEnd" "Suc start \<le> length newVal"
      using True lt by simp_all
    from "1.IH"[OF True this(1) "1.prems"(2) this(2) tk] show ?thesis
      unfolding step by simp
  next
    case False
    have "scan_start oldVal newVal oldEnd start = start"
      by (simp only: scan_start.simps[of oldVal newVal oldEnd start] if_not_P[OF False])
    with "1.prems" show ?thesis by simp
  qed
qed

lemma scan_end_inv:
  assumes "start \<le> oldEnd" "oldEnd \<le> length oldVal" "start \<le> newEnd" "newEnd \<le> length newVal"
    and "drop oldEnd oldVal = drop newEnd newVal"
    and "scan_end oldVal newVal start oldEnd newEnd = (oe, ne)"
  shows "start \<le> oe \<and> oe \<le> length oldVal \<and> start \<le> ne \<and> ne \<le> length newVal
       \<and> drop oe oldVal = drop ne newVal"
  using assms
proof (induction oldVal newVal start oldEnd newEnd rule: scan_end.induct)
  case (1 oldVal newVal start oldEnd newEnd)
  show ?case
  proof (cases "oldEnd > start \<and> newEnd > start
         \<and> strict_eq (charCodeAt oldVal (oldEnd - 1)) (charCodeAt newVal (newEnd - 1))")
    case True
    then have eq: "oldVal ! (oldEnd - 1) = newVal ! (newEnd - 1)"
      by (simp add: strict_eq_charCodeAt)
    have pos: "0 < oldEnd" "0 < newEnd" using True by simp_all
    have "drop (oldEnd - 1) oldVal = oldVal ! (oldEnd - 1) # drop oldEnd oldVal"
      using pos "1.prems"(2) by (metis Cons_nth_drop_Suc Suc_pred' less_le_trans lessI less_eq_Suc_le)
    moreover have "drop (newEnd - 1) newVal = newVal ! (newEnd - 1) # drop newEnd newVal"
      using pos "1.prems"(4) by (metis Cons_nth_drop_Suc Suc_pred' less_le_trans lessI less_eq_Suc_le)
    ultimately have dr: "drop (oldEnd - 1) oldVal = drop (newEnd - 1) newVal"
      using eq "1.prems"(5) by simp
    have step: "scan_end oldVal newVal start (oldEnd - 1) (newEnd - 1) = (oe, ne)"
      using True "1.prems"(6) by (simp add: scan_end.simps[of oldVal newVal start oldEnd newEnd])
    have b: "start \<le> oldEnd - 1" "oldEnd - 1 \<le> length oldVal" "start \<le> newEnd - 1"
      "newEnd - 1 \<le> length newVal"
      using True "1.prems" by linarith+
    from "1.IH"[OF True b dr step] show ?thesis .
  next
    case False
    have "scan_end oldVal newVal start oldEnd newEnd = (oldEnd, newEnd)"
      by (simp only: scan_end.simps[of oldVal newVal start oldEnd newEnd] if_not_P[OF False])
    with "1.prems" show ?thesis by simp
  qed
qed

lemma computeChange_Some:
  assumes "computeChange oldVal newVal = Some c"
  shows "\<exists>newEnd. change_from c \<le> change_to c \<and> change_to c \<le> length oldVal
          \<and> change_from c \<le> newEnd \<and> newEnd \<le> length newVal
          \<and> change_text c = slice newVal (change_from c) newEnd
          \<and> take (change_from c) oldVal = take (change_from c) newVal
          \<and> drop (change_to c) oldVal = drop newEnd newVal"
proof -
  define start where "start = scan_start oldVal newVal (length oldVal) 0"
  obtain oe ne where se: "scan_end oldVal newVal start (length oldVal) (length newVal) = (oe, ne)"
    by (cases "scan_end oldVal newVal start (length oldVal) (length newVal)")
  have c: "c = \<lparr>change_from = start, change_to = oe, change_text = slice newVal start ne\<rparr>"
    using assms se by (auto simp add: computeChange_def start_def Let_def split: if_splits)
  have s: "start \<le> length oldVal" "start \<le> length newVal" "take start oldVal = take start newVal"
    using scan_start_inv[of 0 "length oldVal" oldVal newVal] by (simp_all add: start_def)
  have e: "start \<le> oe \<and> oe \<le> length oldVal \<and> start \<le> ne \<and> ne \<le> length newVal
       \<and> drop oe oldVal = drop ne newVal"
    using scan_end_inv[OF s(1) _ s(2) _ _ se] by simp
  show ?thesis
    using s e by (intro exI[of _ ne]) (simp add: c)
qed

lemma applyChange_computeChange:
  assumes "computeChange oldVal newVal = Some c"
  shows "applyChange oldVal c = newVal"
proof -
  from computeChange_Some[OF assms] obtain newEnd where
    b: "change_from c \<le> newEnd" "newEnd \<le> length newVal"
    and t: "change_text c = slice newVal (change_from c) newEnd"
    and p: "take (change_from c) oldVal = take (change_from c) newVal"
    and d: "drop (change_to c) oldVal = drop newEnd newVal"
    by blast
  have "slice newVal (change_from c) newEnd = take (newEnd - change_from c) (drop (change_from c) newVal)"
    using b by (simp add: slice_def Let_def min_def)
  then have "applyChange oldVal c
      = take (change_from c) newVal @ take (newEnd - change_from c) (drop (change_from c) newVal)
        @ drop newEnd newVal"
    by (simp add: applyChange_def t p d)
  also have "\<dots> = take (change_from c) newVal @ drop (change_from c) newVal"
    using b by (metis append_take_drop_id drop_drop le_add_diff_inverse2)
  finally show ?thesis by simp
qed

lemma computeChange_None_iff: "computeChange oldVal newVal = None \<longleftrightarrow> oldVal = newVal"
  by (simp add: computeChange_def Let_def split: prod.splits)

text \<open>
  C1. \<open>computeChange a b\<close> is null exactly when \<open>a = b\<close>; a non-null change, applied to
  \<open>a\<close> by replacing \<open>[from, to)\<close> with \<open>text\<close>, gives exactly \<open>b\<close>, and computing the
  change from the patched string to \<open>b\<close> then gives null.
\<close>

theorem computeChange_roundtrip:
  "(computeChange a b = None \<longleftrightarrow> a = b)
   \<and> (\<forall>c. computeChange a b = Some c
          \<longrightarrow> applyChange a c = b \<and> computeChange (applyChange a c) b = None)"
  by (simp add: computeChange_None_iff applyChange_computeChange)

theorem computeChange_roundtrip_witness:
  "computeChange (js ''abcde'') (js ''abXde'')
     = Some \<lparr>change_from = 2, change_to = 3, change_text = js ''X''\<rparr>
   \<and> applyChange (js ''abcde'') \<lparr>change_from = 2, change_to = 3, change_text = js ''X''\<rparr>
     = js ''abXde''
   \<and> computeChange
        (applyChange (js ''abcde'') \<lparr>change_from = 2, change_to = 3, change_text = js ''X''\<rparr>)
        (js ''abXde'') = None"
proof -
  have h: "computeChange (js ''abcde'') (js ''abXde'')
             = Some \<lparr>change_from = 2, change_to = 3, change_text = js ''X''\<rparr>"
    by code_simp
  from computeChange_roundtrip[of "js ''abcde''" "js ''abXde''"] h show ?thesis
    by blast
qed

text \<open>
  C9. The three worked examples: \<open>computeChange("abcde", "abXde")\<close> is
  \<open>{from: 2, to: 3, text: "X"}\<close>, \<open>computeChange("abc", "xyz")\<close> is
  \<open>{from: 0, to: 3, text: "xyz"}\<close>, and \<open>computeChange("ab", "ab")\<close> is null.
\<close>

theorem computeChange_examples:
  "computeChange (js ''abcde'') (js ''abXde'')
     = Some \<lparr>change_from = 2, change_to = 3, change_text = js ''X''\<rparr>
   \<and> computeChange (js ''abc'') (js ''xyz'')
     = Some \<lparr>change_from = 0, change_to = 3, change_text = js ''xyz''\<rparr>
   \<and> computeChange (js ''ab'') (js ''ab'') = None"
  by code_simp

text \<open>
  C10. For distinct strings the returned change is well-formed and not trivial:
  \<open>from \<le> to \<le> length oldVal\<close> (and \<open>0 \<le> from\<close>, offsets being naturals), the text is
  \<open>newVal.slice(from, newEnd)\<close> for some \<open>newEnd\<close> with \<open>from \<le> newEnd \<le> length newVal\<close>, and
  either \<open>to > from\<close> or the text is not empty.
\<close>

theorem computeChange_well_formed:
  assumes "oldVal \<noteq> newVal"
  shows "\<exists>c newEnd. computeChange oldVal newVal = Some c
           \<and> 0 \<le> change_from c \<and> change_from c \<le> change_to c \<and> change_to c \<le> length oldVal
           \<and> change_from c \<le> newEnd \<and> newEnd \<le> length newVal
           \<and> change_text c = slice newVal (change_from c) newEnd
           \<and> (change_to c > change_from c \<or> change_text c \<noteq> [])"
proof -
  from assms obtain c where c: "computeChange oldVal newVal = Some c"
    using computeChange_None_iff[of oldVal newVal] by (cases "computeChange oldVal newVal") auto
  from computeChange_Some[OF c] obtain newEnd where
    b: "change_from c \<le> change_to c" "change_to c \<le> length oldVal"
       "change_from c \<le> newEnd" "newEnd \<le> length newVal"
    and t: "change_text c = slice newVal (change_from c) newEnd"
    by blast
  have "change_to c > change_from c \<or> change_text c \<noteq> []"
  proof (rule ccontr)
    assume "\<not> (change_to c > change_from c \<or> change_text c \<noteq> [])"
    then have "change_to c = change_from c" "change_text c = []"
      using b(1) by simp_all
    then have "applyChange oldVal c = oldVal"
      by (simp add: applyChange_def)
    with applyChange_computeChange[OF c] assms show False by simp
  qed
  with c b t show ?thesis by blast
qed

theorem computeChange_well_formed_witness:
  "js ''abc'' \<noteq> js ''ab''
   \<and> (\<exists>c newEnd. computeChange (js ''abc'') (js ''ab'') = Some c
           \<and> 0 \<le> change_from c \<and> change_from c \<le> change_to c
           \<and> change_to c \<le> length (js ''abc'')
           \<and> change_from c \<le> newEnd \<and> newEnd \<le> length (js ''ab'')
           \<and> change_text c = slice (js ''ab'') (change_from c) newEnd
           \<and> (change_to c > change_from c \<or> change_text c \<noteq> []))"
proof -
  have h: "js ''abc'' \<noteq> js ''ab''"
    by (simp add: js_def)
  from computeChange_well_formed[OF h] h show ?thesis
    by blast
qed

section \<open>Properties of CodeBlockNodeView\<close>

lemma dispatched_of_append: "dispatched_of (xs @ ys) = dispatched_of xs @ dispatched_of ys"
  by (induction xs rule: dispatched_of.induct) simp_all

lemma modes_set_of_append: "modes_set_of (xs @ ys) = modes_set_of xs @ modes_set_of ys"
  by (induction xs rule: modes_set_of.induct) simp_all

lemma updateMode_trace:
  "trace (updateMode s) = trace s @
     (case lang (options s) (node s) (editor_value s) of
        None \<Rightarrow> []
      | Some l \<Rightarrow> if mode s \<noteq> l then [(updating s, Chunk_setMode l)] else [])"
  by (cases "lang (options s) (node s) (editor_value s)")
     (auto simp add: updateMode_def getContents_def perform_def enableChunkExecution_def
        canExecuteChunks_def Let_def split: option.splits)

lemma updateMode_fields:
  "editor_value (updateMode s) = editor_value s"
  "node (updateMode s) = node s"
  "updating (updateMode s) = updating s"
  "escaping (updateMode s) = escaping s"
  "focus (updateMode s) = focus s"
  "getPos (updateMode s) = getPos s"
  by (cases "lang (options s) (node s) (editor_value s)";
      auto simp add: updateMode_def getContents_def perform_def enableChunkExecution_def
        canExecuteChunks_def Let_def split: option.splits)+

lemma updateMode_kept:
  "options (updateMode s) = options s"
  "editorOptions (updateMode s) = editorOptions s"
  "localeCompare_accent_is_0 (updateMode s) = localeCompare_accent_is_0 s"
  by (cases "lang (options s) (node s) (editor_value s)";
      auto simp add: updateMode_def getContents_def perform_def enableChunkExecution_def
        canExecuteChunks_def Let_def split: option.splits)+

lemma updateMode_mode:
  "mode (updateMode s)
     = (case lang (options s) (node s) (editor_value s) of None \<Rightarrow> mode s | Some l \<Rightarrow> l)"
  by (cases "lang (options s) (node s) (editor_value s)")
     (auto simp add: updateMode_def getContents_def perform_def enableChunkExecution_def
        canExecuteChunks_def Let_def split: option.splits)

lemma updateMode_display:
  "runChunkToolbar_display (updateMode s) \<noteq> ''none'' \<longleftrightarrow>
     executeRmdChunkFn (options s)
     \<and> (\<exists>l langs found.
           lang (options s) (node s) (editor_value s) = Some l \<and> l \<noteq> []
           \<and> rmdChunkExecution (editorOptions s) = Some langs
           \<and> find (localeCompare_accent_is_0 s l) langs = Some found \<and> found \<noteq> [])"
  by (cases "lang (options s) (node s) (editor_value s)")
     (auto simp add: updateMode_def getContents_def perform_def enableChunkExecution_def
        canExecuteChunks_def Let_def split: option.splits)

lemma apply_guards_of_append:
  "apply_guards_of (xs @ ys) = apply_guards_of xs @ apply_guards_of ys"
  by (induction xs rule: apply_guards_of.induct) simp_all

lemma apply_guards_of_updateMode:
  "apply_guards_of (trace (updateMode s)) = apply_guards_of (trace s)"
  by (simp add: updateMode_trace apply_guards_of_append split: option.splits)

text \<open>While \<open>updating\<close> is set, the change and cursor listeners do nothing.\<close>

lemma listeners_guarded: "updating s \<Longrightarrow> on_change s = s \<and> on_changeCursor s = s"
  by (simp add: on_change_def on_changeCursor_def)

text \<open>
  \<open>updating\<close> is written by \<open>update\<close> and \<open>setSelection\<close> only: every other entry point
  leaves it as it finds it, so it is false whenever an entry point is called.
\<close>

lemma updating_untouched:
  "updating (updateMode s) = updating s"
  "updating (valueChanged s) = updating s"
  "updating (forwardSelection s) = updating s"
  "updating (on_change s) = updating s"
  "updating (on_changeCursor s) = updating s"
  "updating (backspaceMaybeDeleteNode s) = updating s"
  "updating (arrowMaybeEscape unit dir command s) = updating s"
proof -
  show u: "updating (updateMode s) = updating s" for s
    by (rule updateMode_fields)
  show v: "updating (valueChanged s) = updating s" for s
    by (simp add: valueChanged_def Let_def u perform_def split: option.splits)
  show f: "updating (forwardSelection s) = updating s" for s
    by (simp add: forwardSelection_def Let_def perform_def)
  show "updating (on_change s) = updating s"
    by (simp add: on_change_def f v)
  show "updating (on_changeCursor s) = updating s"
    by (simp add: on_changeCursor_def f)
  show "updating (backspaceMaybeDeleteNode s) = updating s"
    by (simp add: backspaceMaybeDeleteNode_def view_focus_def perform_def Let_def)
  show "updating (arrowMaybeEscape unit dir command s) = updating s"
    by (simp add: arrowMaybeEscape_def view_focus_def perform_def Let_def split: option.splits)
qed

lemma dispatched_of_updateMode:
  "dispatched_of (trace (updateMode s)) = dispatched_of (trace s)"
  by (simp add: updateMode_trace dispatched_of_append split: option.splits)

lemma update_buffer:
  assumes "node_type new_node = node_type (node s)"
  shows "editor_value (snd (update new_node s)) = textContent new_node"
    and "node (snd (update new_node s)) = new_node"
    and "dispatched_of (trace (snd (update new_node s))) = dispatched_of (trace s)"
proof -
  show "editor_value (snd (update new_node s)) = textContent new_node"
  proof (cases "computeChange (editor_value s) (textContent new_node)")
    case None
    then have "editor_value s = textContent new_node"
      by (simp add: computeChange_None_iff)
    with None assms show ?thesis
      by (simp add: update_def Let_def updateMode_fields)
  next
    case (Some c)
    from applyChange_computeChange[OF Some] Some show ?thesis
      using assms
      by (simp add: update_def Let_def updateMode_fields session_replace_def perform_def
            applyChange_def)
  qed
  show "node (snd (update new_node s)) = new_node"
    using assms
    by (simp add: update_def Let_def updateMode_fields session_replace_def perform_def
          split: option.splits)
  show "dispatched_of (trace (snd (update new_node s))) = dispatched_of (trace s)"
    using assms
    by (simp add: update_def Let_def updateMode_fields session_replace_def perform_def
          dispatched_of_append dispatched_of_updateMode split: option.splits)
qed

text \<open>
  After a host-driven update the inner buffer equals the node's text, so the change
  handler that may follow finds no difference and dispatches nothing to the host.
\<close>

lemma update_then_valueChanged:
  assumes "node_type new_node = node_type (node s)"
  shows "dispatched_of (trace (valueChanged (snd (update new_node s)))) = dispatched_of (trace s)"
proof -
  have "computeChange (textContent (node (snd (update new_node s))))
          (getContents (snd (update new_node s))) = None"
    using update_buffer(1,2)[OF assms] by (simp add: getContents_def computeChange_None_iff)
  then have "valueChanged (snd (update new_node s)) = updateMode (snd (update new_node s))"
    by (simp add: valueChanged_def Let_def)
  then show ?thesis
    using update_buffer(3)[OF assms] by (simp add: dispatched_of_updateMode)
qed

text \<open>
  C2. \<open>update(newNode)\<close> returns false, and changes nothing, when the type of \<open>newNode\<close>
  differs from the type of the bound node. Otherwise it returns true and holds \<open>newNode\<close>;
  it has recomputed the mode from the language the classifier detects for \<open>newNode\<close> and
  the inner buffer: \<open>chunk.setMode\<close> is called with that language, and it is stored, when
  it is not null and differs from the stored mode, and the execution affordance is shown or
  hidden for it; then the change computed from the inner buffer to the text of \<open>newNode\<close>,
  when it is not null, is applied to the inner buffer with \<open>updating\<close> set during the call
  and cleared after it. These are the only calls made, in this order, and the buffer then
  equals the text of \<open>newNode\<close>.
\<close>

theorem update_contract:
  "(node_type new_node \<noteq> node_type (node s) \<longrightarrow> update new_node s = (False, s))
   \<and> (node_type new_node = node_type (node s) \<longrightarrow>
        fst (update new_node s) = True
        \<and> node (snd (update new_node s)) = new_node
        \<and> mode (snd (update new_node s)) = mode (updateMode (s\<lparr>node := new_node\<rparr>))
        \<and> mode (snd (update new_node s))
            = (case lang (options s) new_node (editor_value s) of
                 None \<Rightarrow> mode s
               | Some l \<Rightarrow> l)
        \<and> (isChunkExecutionEnabled (snd (update new_node s)) \<longleftrightarrow>
             executeRmdChunkFn (options s)
             \<and> (\<exists>l langs found.
                   lang (options s) new_node (editor_value s) = Some l \<and> l \<noteq> []
                   \<and> rmdChunkExecution (editorOptions s) = Some langs
                   \<and> find (localeCompare_accent_is_0 s l) langs = Some found \<and> found \<noteq> []))
        \<and> trace (snd (update new_node s))
            = trace s
              @ (case lang (options s) new_node (editor_value s) of
                   None \<Rightarrow> []
                 | Some l \<Rightarrow> if mode s \<noteq> l then [(updating s, Chunk_setMode l)] else [])
              @ (case computeChange (editor_value s) (textContent new_node) of
                   None \<Rightarrow> []
                 | Some c \<Rightarrow>
                     [(True, Session_replace (change_from c) (change_to c) (change_text c))])
        \<and> (case computeChange (editor_value s) (textContent new_node) of
             None \<Rightarrow> snd (update new_node s) = updateMode (s\<lparr>node := new_node\<rparr>)
           | Some c \<Rightarrow>
               trace (snd (update new_node s))
                 = trace (updateMode (s\<lparr>node := new_node\<rparr>))
                   @ [(True, Session_replace (change_from c) (change_to c) (change_text c))]
               \<and> editor_value (snd (update new_node s)) = applyChange (editor_value s) c
               \<and> updating (snd (update new_node s)) = False)
        \<and> editor_value (snd (update new_node s)) = textContent new_node)"
proof (cases "node_type new_node = node_type (node s)")
  case False
  then show ?thesis
    by (simp add: update_def)
next
  case same: True
  let ?s1 = "s\<lparr>node := new_node\<rparr>"
  have m: "mode (updateMode ?s1)
             = (case lang (options s) new_node (editor_value s) of None \<Rightarrow> mode s | Some l \<Rightarrow> l)"
    using updateMode_mode[of ?s1] by (simp split: option.splits)
  have t: "trace (updateMode ?s1)
             = trace s
               @ (case lang (options s) new_node (editor_value s) of
                    None \<Rightarrow> []
                  | Some l \<Rightarrow> if mode s \<noteq> l then [(updating s, Chunk_setMode l)] else [])"
    using updateMode_trace[of ?s1] by (simp split: option.splits)
  have d: "runChunkToolbar_display (updateMode ?s1) \<noteq> ''none'' \<longleftrightarrow>
             executeRmdChunkFn (options s)
             \<and> (\<exists>l langs found.
                   lang (options s) new_node (editor_value s) = Some l \<and> l \<noteq> []
                   \<and> rmdChunkExecution (editorOptions s) = Some langs
                   \<and> find (localeCompare_accent_is_0 s l) langs = Some found \<and> found \<noteq> [])"
    using updateMode_display[of ?s1] by simp
  show ?thesis
  proof (cases "computeChange (editor_value s) (textContent new_node)")
    case None
    then have e: "editor_value s = textContent new_node"
      by (simp add: computeChange_None_iff)
    have u: "snd (update new_node s) = updateMode ?s1" "fst (update new_node s) = True"
      using same None by (simp_all add: update_def Let_def updateMode_fields)
    have "isChunkExecutionEnabled (snd (update new_node s))
            \<longleftrightarrow> runChunkToolbar_display (updateMode ?s1) \<noteq> ''none''"
      by (simp add: u isChunkExecutionEnabled_def)
    with d same None e m t show ?thesis
      by (simp add: u updateMode_fields)
  next
    case (Some c)
    from applyChange_computeChange[OF Some]
    have a: "applyChange (editor_value s) c = textContent new_node" .
    have u: "snd (update new_node s)
               = (session_replace (change_from c) (change_to c) (change_text c)
                    ((updateMode ?s1)\<lparr>updating := True\<rparr>))\<lparr>updating := False\<rparr>"
      "fst (update new_node s) = True"
      using same Some by (simp_all add: update_def Let_def updateMode_fields)
    have f: "node (snd (update new_node s)) = new_node"
      "mode (snd (update new_node s)) = mode (updateMode ?s1)"
      "trace (snd (update new_node s))
         = trace (updateMode ?s1)
           @ [(True, Session_replace (change_from c) (change_to c) (change_text c))]"
      "editor_value (snd (update new_node s)) = applyChange (editor_value s) c"
      "updating (snd (update new_node s)) = False"
      "isChunkExecutionEnabled (snd (update new_node s))
         \<longleftrightarrow> runChunkToolbar_display (updateMode ?s1) \<noteq> ''none''"
      by (simp_all add: u session_replace_def perform_def updateMode_fields applyChange_def
            isChunkExecutionEnabled_def)
    from d same Some a m t show ?thesis
      by (simp add: f u(2))
  qed
qed

theorem update_contract_witness:
  "node_type (paragraph_node (js ''ab'')) \<noteq> node_type (node (idle_view (js ''ab'')))
   \<and> update (paragraph_node (js ''ab'')) (idle_view (js ''ab'')) = (False, idle_view (js ''ab''))
   \<and> node_type (code_block (js ''py x'')) = node_type (node (classified_view (js ''r x'') [js ''PY'']))
   \<and> lang (options (classified_view (js ''r x'') [js ''PY''])) (code_block (js ''py x''))
        (editor_value (classified_view (js ''r x'') [js ''PY''])) = Some (js ''py'')
   \<and> mode (classified_view (js ''r x'') [js ''PY'']) = js ''r''
   \<and> \<not> isChunkExecutionEnabled (classified_view (js ''r x'') [js ''PY''])
   \<and> fst (update (code_block (js ''py x'')) (classified_view (js ''r x'') [js ''PY''])) = True
   \<and> node (snd (update (code_block (js ''py x'')) (classified_view (js ''r x'') [js ''PY''])))
       = code_block (js ''py x'')
   \<and> mode (snd (update (code_block (js ''py x'')) (classified_view (js ''r x'') [js ''PY''])))
       = js ''py''
   \<and> isChunkExecutionEnabled
        (snd (update (code_block (js ''py x'')) (classified_view (js ''r x'') [js ''PY''])))
   \<and> trace (snd (update (code_block (js ''py x'')) (classified_view (js ''r x'') [js ''PY''])))
       = [(False, Chunk_setMode (js ''py'')), (True, Session_replace 0 1 (js ''py''))]
   \<and> updating (snd (update (code_block (js ''py x'')) (classified_view (js ''r x'') [js ''PY''])))
       = False
   \<and> editor_value (snd (update (code_block (js ''py x'')) (classified_view (js ''r x'') [js ''PY''])))
       = js ''py x''"
proof -
  let ?v = "classified_view (js ''r x'') [js ''PY'']"
  let ?n = "code_block (js ''py x'')"
  have t1: "node_type (paragraph_node (js ''ab'')) \<noteq> node_type (node (idle_view (js ''ab'')))"
    by (simp add: paragraph_node_def idle_view_def code_block_def)
  have t2: "node_type ?n = node_type (node ?v)"
    by (simp add: classified_view_def idle_view_def code_block_def)
  have w: "first_word (js ''py x'') = js ''py''" "first_word (js ''r x'') = js ''r''"
    by (simp_all add: first_word_def js_def)
  have v: "editor_value ?v = js ''r x''"
    "textContent ?n = js ''py x''"
    "lang (options ?v) ?n (editor_value ?v) = Some (js ''py'')"
    "mode ?v = js ''r''"
    "trace ?v = []"
    "updating ?v = False"
    "executeRmdChunkFn (options ?v)"
    "rmdChunkExecution (editorOptions ?v) = Some [js ''PY'']"
    "localeCompare_accent_is_0 ?v = accent_collator"
    "\<not> isChunkExecutionEnabled ?v"
    by (simp_all add: classified_view_def idle_view_def code_block_def w
          isChunkExecutionEnabled_def)
  have c: "computeChange (js ''r x'') (js ''py x'')
             = Some \<lparr>change_from = 0, change_to = 1, change_text = js ''py''\<rparr>"
    by code_simp
  have l: "lang (options ?v) ?n (js ''r x'') = Some (js ''py'')"
    by (simp add: classified_view_def idle_view_def code_block_def w)
  have f: "accent_collator (js ''py'') (js ''PY'')"
    by (simp add: accent_collator_def fold_ascii_case_def js_def)
  have ne: "js ''py'' \<noteq> []" "js ''PY'' \<noteq> []" "js ''r'' \<noteq> js ''py''"
    by (simp_all add: js_def)
  from update_contract[of "paragraph_node (js ''ab'')" "idle_view (js ''ab'')"] t1
  have a: "update (paragraph_node (js ''ab'')) (idle_view (js ''ab'')) = (False, idle_view (js ''ab''))"
    by blast
  note h = update_contract[of ?n ?v, THEN conjunct2, THEN mp, OF t2]
  note h_fst = h[THEN conjunct1]
  note h_node = h[THEN conjunct2, THEN conjunct1]
  note h_mode = h[THEN conjunct2, THEN conjunct2, THEN conjunct2, THEN conjunct1]
  note h_shown = h[THEN conjunct2, THEN conjunct2, THEN conjunct2, THEN conjunct2, THEN conjunct1]
  note h_trace = h[THEN conjunct2, THEN conjunct2, THEN conjunct2, THEN conjunct2, THEN conjunct2,
      THEN conjunct1]
  note h_patch = h[THEN conjunct2, THEN conjunct2, THEN conjunct2, THEN conjunct2, THEN conjunct2,
      THEN conjunct2, THEN conjunct1]
  note h_value = h[THEN conjunct2, THEN conjunct2, THEN conjunct2, THEN conjunct2, THEN conjunct2,
      THEN conjunct2, THEN conjunct2]
  have b4: "mode (snd (update ?n ?v)) = js ''py''"
    using h_mode by (simp add: v l)
  have b5: "isChunkExecutionEnabled (snd (update ?n ?v))"
    using h_shown f ne by (simp add: v l)
  have b6: "trace (snd (update ?n ?v))
              = [(False, Chunk_setMode (js ''py'')), (True, Session_replace 0 1 (js ''py''))]"
    using h_trace ne by (simp add: v l c)
  have b7: "updating (snd (update ?n ?v)) = False"
    using h_patch by (simp add: v c)
  have b8: "editor_value (snd (update ?n ?v)) = js ''py x''"
    using h_value by (simp add: v)
  have b: "fst (update ?n ?v) = True
        \<and> node (snd (update ?n ?v)) = ?n
        \<and> mode (snd (update ?n ?v)) = js ''py''
        \<and> isChunkExecutionEnabled (snd (update ?n ?v))
        \<and> trace (snd (update ?n ?v))
            = [(False, Chunk_setMode (js ''py'')), (True, Session_replace 0 1 (js ''py''))]
        \<and> updating (snd (update ?n ?v)) = False
        \<and> editor_value (snd (update ?n ?v)) = js ''py x''"
    using h_fst h_node b4 b5 b6 b7 b8 by blast
  from t1 a t2 b v(3,4,10) show ?thesis by blast
qed

text \<open>
  C3. \<open>updating\<close> is true at each cross-sync apply (the patch inside \<open>update\<close>, the
  selection set inside \<open>setSelection\<close>) and false when the method returns:
  \<open>setSelection\<close> always returns with \<open>updating\<close> false; \<open>update\<close> returns with it false
  whenever it applied a patch, and whenever it was false on entry.
\<close>

theorem updating_guard:
  "updating (setSelection anchor head s) = False
   \<and> apply_guards_of (trace (setSelection anchor head s)) = apply_guards_of (trace s) @ [True]
   \<and> (\<not> updating s \<longrightarrow> updating (snd (update new_node s)) = False)
   \<and> (\<forall>c. node_type new_node = node_type (node s)
          \<and> computeChange (editor_value s) (textContent new_node) = Some c \<longrightarrow>
          updating (snd (update new_node s)) = False
          \<and> apply_guards_of (trace (snd (update new_node s))) = apply_guards_of (trace s) @ [True])
   \<and> (node_type new_node \<noteq> node_type (node s)
        \<or> computeChange (editor_value s) (textContent new_node) = None \<longrightarrow>
        apply_guards_of (trace (snd (update new_node s))) = apply_guards_of (trace s))"
  by (auto simp add: setSelection_def editor_focus_def perform_def Let_def update_def
        updateMode_fields session_replace_def apply_guards_of_append apply_guards_of_updateMode
        split: option.splits)

theorem updating_guard_witness:
  "\<not> updating (idle_view (js ''abcde''))
   \<and> node_type (code_block (js ''abXde'')) = node_type (node (idle_view (js ''abcde'')))
   \<and> computeChange (editor_value (idle_view (js ''abcde''))) (textContent (code_block (js ''abXde'')))
       = Some \<lparr>change_from = 2, change_to = 3, change_text = js ''X''\<rparr>
   \<and> updating (snd (update (code_block (js ''abXde'')) (idle_view (js ''abcde'')))) = False
   \<and> apply_guards_of (trace (snd (update (code_block (js ''abXde'')) (idle_view (js ''abcde'')))))
       = [True]
   \<and> updating (setSelection 1 2 (idle_view (js ''abcde''))) = False
   \<and> apply_guards_of (trace (setSelection 1 2 (idle_view (js ''abcde'')))) = [True]"
proof -
  have u: "\<not> updating (idle_view (js ''abcde''))"
    by (simp add: idle_view_def)
  have t: "node_type (code_block (js ''abXde'')) = node_type (node (idle_view (js ''abcde'')))"
    by (simp add: idle_view_def code_block_def)
  have v: "editor_value (idle_view (js ''abcde'')) = js ''abcde''"
    "textContent (code_block (js ''abXde'')) = js ''abXde''"
    "trace (idle_view (js ''abcde'')) = []"
    by (simp_all add: idle_view_def code_block_def)
  have c: "computeChange (js ''abcde'') (js ''abXde'')
             = Some \<lparr>change_from = 2, change_to = 3, change_text = js ''X''\<rparr>"
    by code_simp
  from updating_guard[of 1 2 "idle_view (js ''abcde'')" "code_block (js ''abXde'')"] u t
  show ?thesis
    by (simp add: v c)
qed

text \<open>
  C4. When the inner selection is not empty, or the cursor's row is not the boundary row
  of the direction (row 0 for \<open>dir < 0\<close>, the last row otherwise), or the unit is
  \<open>char\<close> and the cursor's column is not the boundary column of that row (0 for
  \<open>dir < 0\<close>, the line's length otherwise), \<open>arrowMaybeEscape\<close> executes the inner editor's
  command and does nothing else: no focus change, no dispatch, \<open>escaping\<close> untouched.
  The witness is the cursor at row 0, column 3 of a line of length 10, moving left.
\<close>

theorem arrow_stays_inside:
  assumes "\<not> selection_isEmpty s
           \<or> fst (cursorPosition s) \<noteq> (if dir < 0 then 0 else session_length s - 1)
           \<or> (unit = ''char''
               \<and> snd (cursorPosition s)
                    \<noteq> (if dir < 0 then 0 else line_length s (fst (cursorPosition s))))"
  shows "arrowMaybeEscape unit dir command s
           = s\<lparr>trace := trace s @ [(updating s, Editor_execCommand command)]\<rparr>"
proof -
  from assms have "stays_inside unit dir s"
    by (simp add: stays_inside_def Let_def)
  then show ?thesis
    by (simp add: arrowMaybeEscape_def perform_def)
qed

theorem arrow_stays_inside_witness:
  "line_length ((idle_view (js ''0123456789''))\<lparr>cursorPosition := (0, 3)\<rparr>) 0 = 10
   \<and> snd (cursorPosition ((idle_view (js ''0123456789''))\<lparr>cursorPosition := (0, 3)\<rparr>)) \<noteq> 0
   \<and> arrowMaybeEscape ''char'' (- 1) ''gotoleft''
        ((idle_view (js ''0123456789''))\<lparr>cursorPosition := (0, 3)\<rparr>)
       = (idle_view (js ''0123456789''))
           \<lparr>cursorPosition := (0, 3), trace := [(False, Editor_execCommand ''gotoleft'')]\<rparr>"
  using arrow_stays_inside[where s = "(idle_view (js ''0123456789''))\<lparr>cursorPosition := (0, 3)\<rparr>"
      and dir = "- 1" and unit = "''char''" and command = "''gotoleft''"]
  by (simp add: idle_view_def js_def)




text \<open>
  C6. Backspace: when the node has no content and no input rule can be undone, one
  transaction is dispatched that deletes \<open>[getPos, getPos + nodeSize)\<close> and sets the
  selection with \<open>TextSelection.near\<close> the node's former position, biased backwards, and
  the host is focused; when the node has no content and an input rule can be undone, it
  is undone and the host is focused; when the node has content, the \<open>backspace\<close> command
  goes to the inner editor and nothing else happens.
\<close>

theorem backspace_contract:
  "(childCount (node s) = 0 \<and> \<not> undoInputRule_possible s \<longrightarrow>
      backspaceMaybeDeleteNode s
        = s\<lparr>focus := HostView,
            trace := trace s @
              [(updating s, View_dispatch
                  [Delete (getPos s) (getPos s + nodeSize (node s)),
                   SetSelection (TextSelection_near (getPos s) (- 1))]),
               (updating s, View_focus)]\<rparr>)
   \<and> (childCount (node s) = 0 \<and> undoInputRule_possible s \<longrightarrow>
      backspaceMaybeDeleteNode s
        = s\<lparr>focus := HostView,
            trace := trace s @ [(updating s, UndoInputRule_dispatch), (updating s, View_focus)]\<rparr>)
   \<and> (childCount (node s) \<noteq> 0 \<longrightarrow>
      backspaceMaybeDeleteNode s
        = s\<lparr>trace := trace s @ [(updating s, Editor_execCommand ''backspace'')]\<rparr>)"
  by (simp add: backspaceMaybeDeleteNode_def view_focus_def perform_def Let_def)

theorem backspace_contract_witness:
  "childCount (node (idle_view [])) = 0 \<and> \<not> undoInputRule_possible (idle_view [])
   \<and> backspaceMaybeDeleteNode (idle_view [])
       = (idle_view [])
           \<lparr>focus := HostView,
            trace := [(False, View_dispatch [Delete 0 2, SetSelection (TextSelection_near 0 (- 1))]),
                      (False, View_focus)]\<rparr>
   \<and> undoInputRule_possible ((idle_view [])\<lparr>undoInputRule_possible := True\<rparr>)
   \<and> backspaceMaybeDeleteNode ((idle_view [])\<lparr>undoInputRule_possible := True\<rparr>)
       = (idle_view [])
           \<lparr>undoInputRule_possible := True, focus := HostView,
            trace := [(False, UndoInputRule_dispatch), (False, View_focus)]\<rparr>
   \<and> childCount (node (idle_view (js ''ab''))) \<noteq> 0
   \<and> backspaceMaybeDeleteNode (idle_view (js ''ab''))
       = (idle_view (js ''ab''))\<lparr>trace := [(False, Editor_execCommand ''backspace'')]\<rparr>"
  using backspace_contract[of "idle_view []"]
    backspace_contract[of "(idle_view [])\<lparr>undoInputRule_possible := True\<rparr>"]
    backspace_contract[of "idle_view (js ''ab'')"]
  by (simp add: idle_view_def code_block_def js_def)

text \<open>
  C7, as amended. On a mode update \<open>chunk.setMode\<close> is called once, with the detected
  language, when that language is not null and differs from the stored mode, and not at
  all otherwise. The execution affordance is shown exactly when an execution callback
  and a list of executable languages are configured, the detected language is a string
  that is not empty, and the first entry of the list that \<open>localeCompare\<close> with
  \<open>sensitivity: 'accent'\<close> reports equal to it exists and is not the empty string.
\<close>

theorem updateMode_contract:
  "modes_set_of (trace (updateMode s))
     = modes_set_of (trace s)
       @ (case lang (options s) (node s) (editor_value s) of
            None \<Rightarrow> []
          | Some l \<Rightarrow> if mode s \<noteq> l then [l] else [])
   \<and> mode (updateMode s)
       = (case lang (options s) (node s) (editor_value s) of None \<Rightarrow> mode s | Some l \<Rightarrow> l)
   \<and> (isChunkExecutionEnabled (updateMode s) \<longleftrightarrow>
        executeRmdChunkFn (options s)
        \<and> (\<exists>l langs found.
              lang (options s) (node s) (editor_value s) = Some l \<and> l \<noteq> []
              \<and> rmdChunkExecution (editorOptions s) = Some langs
              \<and> find (localeCompare_accent_is_0 s l) langs = Some found \<and> found \<noteq> []))"
  by (cases "lang (options s) (node s) (editor_value s)")
     (auto simp add: updateMode_trace modes_set_of_append updateMode_def getContents_def
        perform_def enableChunkExecution_def isChunkExecutionEnabled_def canExecuteChunks_def
        Let_def split: option.splits)

theorem updateMode_contract_witness:
  "modes_set_of (trace (updateMode
       (executable_view (js ''r'') (js ''python'') [js ''r'', js ''Python'']))) = [js ''python'']
   \<and> mode (updateMode (executable_view (js ''r'') (js ''python'') [js ''r'', js ''Python'']))
       = js ''python''
   \<and> find (accent_collator (js ''python'')) [js ''r'', js ''Python''] = Some (js ''Python'')
   \<and> isChunkExecutionEnabled
        (updateMode (executable_view (js ''r'') (js ''python'') [js ''r'', js ''Python'']))"
proof -
  have f: "find (accent_collator (js ''python'')) [js ''r'', js ''Python''] = Some (js ''Python'')"
    by (simp add: accent_collator_def fold_ascii_case_def js_def)
  have v: "lang (options (executable_view (js ''r'') (js ''python'') [js ''r'', js ''Python'']))
             (node (executable_view (js ''r'') (js ''python'') [js ''r'', js ''Python'']))
             (editor_value (executable_view (js ''r'') (js ''python'') [js ''r'', js ''Python'']))
           = Some (js ''python'')"
    "mode (executable_view (js ''r'') (js ''python'') [js ''r'', js ''Python'']) = js ''r''"
    "trace (executable_view (js ''r'') (js ''python'') [js ''r'', js ''Python'']) = []"
    "executeRmdChunkFn (options (executable_view (js ''r'') (js ''python'') [js ''r'', js ''Python'']))"
    "rmdChunkExecution (editorOptions
        (executable_view (js ''r'') (js ''python'') [js ''r'', js ''Python'']))
       = Some [js ''r'', js ''Python'']"
    "localeCompare_accent_is_0 (executable_view (js ''r'') (js ''python'') [js ''r'', js ''Python''])
       = accent_collator"
    by (simp_all add: executable_view_def idle_view_def)
  have ne: "js ''python'' \<noteq> []" "js ''Python'' \<noteq> []" "js ''r'' \<noteq> js ''python''"
    by (simp_all add: js_def)
  from updateMode_contract[of "executable_view (js ''r'') (js ''python'') [js ''r'', js ''Python'']"]
  show ?thesis
    using f ne v by simp
qed

text \<open>
  C7 as stated fails in two places. With the empty string as detected language and as
  list entry the two match, yet the affordance is hidden, because an empty language is
  falsy. With an accented letter as detected language and its base letter as list entry
  the two match when accents are ignored, yet the affordance is hidden, because
  \<open>sensitivity: 'accent'\<close> keeps accents apart (code unit \<open>0xE9\<close> is e with acute accent).
\<close>

theorem updateMode_affordance_counterexample:
  "spec_execution_shown (executable_view [] [] [[]])
   \<and> \<not> isChunkExecutionEnabled (updateMode (executable_view [] [] [[]]))
   \<and> spec_execution_shown (executable_view [] [0xE9] [js ''e''])
   \<and> \<not> isChunkExecutionEnabled (updateMode (executable_view [] [0xE9] [js ''e'']))"
  by (simp add: spec_execution_shown_def spec_lang_matches_def base_letter_def
        isChunkExecutionEnabled_def updateMode_def enableChunkExecution_def perform_def
        canExecuteChunks_def getContents_def executable_view_def idle_view_def
        accent_collator_def fold_ascii_case_def js_def Let_def)

text \<open>
  C8. With \<open>p = getPos()\<close>, the host offset of the inner offset \<open>k\<close> is \<open>p + 1 + k\<close>: the
  selection handed to the host is the text selection from \<open>p + 1 +\<close> the index of the
  start of the inner range to \<open>p + 1 +\<close> the index of its end, and a non-null change
  \<open>{from, to, text}\<close> of the inner content is dispatched as a replacement of the host range
  \<open>[p + 1 + from, p + 1 + to)\<close> by the text (by nothing when the text is empty).
\<close>

theorem host_offsets:
  "asProseMirrorSelection s
     = TextSelection (getPos s + 1 + int (range_start_index s))
                     (getPos s + 1 + int (range_end_index s))
   \<and> (\<forall>c. computeChange (textContent (node s)) (editor_value s) = Some c \<longrightarrow>
        dispatched_of (trace (valueChanged s))
          = dispatched_of (trace s) @
              [[ReplaceWith (getPos s + 1 + int (change_from c)) (getPos s + 1 + int (change_to c))
                  (if change_text c = [] then None else Some (change_text c))]])"
  by (auto simp add: asProseMirrorSelection_def valueChanged_def getContents_def Let_def
        updateMode_trace dispatched_of_append perform_def split: option.splits)

theorem host_offsets_witness:
  "computeChange
      (textContent (node ((idle_view (js ''abcde''))
          \<lparr>editor_value := js ''abXde'', getPos := 7, range_start_index := 3, range_end_index := 4\<rparr>)))
      (editor_value ((idle_view (js ''abcde''))
          \<lparr>editor_value := js ''abXde'', getPos := 7, range_start_index := 3, range_end_index := 4\<rparr>))
     = Some \<lparr>change_from = 2, change_to = 3, change_text = js ''X''\<rparr>
   \<and> asProseMirrorSelection ((idle_view (js ''abcde''))
          \<lparr>editor_value := js ''abXde'', getPos := 7, range_start_index := 3, range_end_index := 4\<rparr>)
     = TextSelection 11 12
   \<and> dispatched_of (trace (valueChanged ((idle_view (js ''abcde''))
          \<lparr>editor_value := js ''abXde'', getPos := 7, range_start_index := 3, range_end_index := 4\<rparr>)))
     = [[ReplaceWith 10 11 (Some (js ''X''))]]"
proof -
  have c: "computeChange (js ''abcde'') (js ''abXde'')
             = Some \<lparr>change_from = 2, change_to = 3, change_text = js ''X''\<rparr>"
    by code_simp
  have v: "textContent (node ((idle_view (js ''abcde''))
          \<lparr>editor_value := js ''abXde'', getPos := 7, range_start_index := 3, range_end_index := 4\<rparr>))
        = js ''abcde''"
    "editor_value ((idle_view (js ''abcde''))
          \<lparr>editor_value := js ''abXde'', getPos := 7, range_start_index := 3, range_end_index := 4\<rparr>)
        = js ''abXde''"
    "getPos ((idle_view (js ''abcde''))
          \<lparr>editor_value := js ''abXde'', getPos := 7, range_start_index := 3, range_end_index := 4\<rparr>)
        = 7"
    "range_start_index ((idle_view (js ''abcde''))
          \<lparr>editor_value := js ''abXde'', getPos := 7, range_start_index := 3, range_end_index := 4\<rparr>)
        = 3"
    "range_end_index ((idle_view (js ''abcde''))
          \<lparr>editor_value := js ''abXde'', getPos := 7, range_start_index := 3, range_end_index := 4\<rparr>)
        = 4"
    "trace ((idle_view (js ''abcde''))
          \<lparr>editor_value := js ''abXde'', getPos := 7, range_start_index := 3, range_end_index := 4\<rparr>)
        = []"
    by (simp_all add: idle_view_def code_block_def)
  have ne: "js ''X'' \<noteq> []"
    by (simp add: js_def)
  from host_offsets[of "(idle_view (js ''abcde''))
          \<lparr>editor_value := js ''abXde'', getPos := 7, range_start_index := 3, range_end_index := 4\<rparr>"]
  show ?thesis
    unfolding v using c ne by simp
qed

end
